theory Spec2Isabelle
  imports Main
begin

section \<open>Python values of telegram\_bridge.py\<close>

text \<open>
  An exception derived from \<open>Exception\<close>, which is what the handler of
  \<open>process_telegram_image\<close> (\<open>except Exception as e\<close>) catches; \<open>message\<close> is
  \<open>str(e)\<close>. A call of a collaborator either raises (\<open>Inl\<close>) or returns (\<open>Inr\<close>).
\<close>

datatype py_exception = PyException (message: string)

type_synonym 'a outcome = "py_exception + 'a"

text \<open>
  A discovered pattern is a Python dict. The bridge reads only its key \<open>question\<close>,
  whose value is a string or \<open>None\<close>; the dict is an association list from keys to
  such values.
\<close>

datatype pat_value = PNone | PStr string

type_synonym pattern = "(string \<times> pat_value) list"

text \<open>\<open>p.get(k)\<close>: the value at \<open>k\<close>, \<open>None\<close> when the key is absent.\<close>

definition dict_get :: "pattern \<Rightarrow> string \<Rightarrow> pat_value" where
  "dict_get p k = (case map_of p k of None \<Rightarrow> PNone | Some v \<Rightarrow> v)"

text \<open>\<open>p[k]\<close>: the value at \<open>k\<close>, \<open>KeyError\<close> when the key is absent.\<close>

definition dict_item :: "pattern \<Rightarrow> string \<Rightarrow> pat_value outcome" where
  "dict_item p k =
     (case map_of p k of
        None \<Rightarrow> Inl (PyException ([CHR 0x27] @ k @ [CHR 0x27]))
      | Some v \<Rightarrow> Inr v)"

text \<open>Python's truth value: \<open>None\<close> and the empty string are false.\<close>

fun truthy :: "pat_value \<Rightarrow> bool" where
  "truthy PNone = False"
| "truthy (PStr s) = (s \<noteq> [])"

text \<open>
  Line 111: \<open>[p['question'] for p in patterns if p.get('question')]\<close>.
\<close>

fun extract_questions :: "pattern list \<Rightarrow> pat_value list outcome" where
  "extract_questions [] = Inr []"
| "extract_questions (p # ps) =
     (if truthy (dict_get p ''question'')
      then (case dict_item p ''question'' of
              Inl e \<Rightarrow> Inl e
            | Inr v \<Rightarrow>
                (case extract_questions ps of
                   Inl e \<Rightarrow> Inl e
                 | Inr vs \<Rightarrow> Inr (v # vs)))
      else extract_questions ps)"

text \<open>
  The values of the returned dict, and the dict itself in insertion order.
\<close>

datatype 'r py_value =
    PyBool bool
  | PyStr string
  | PyList "pat_value list"
  | PyResults "'r list"

type_synonym 'r report = "(string \<times> 'r py_value) list"

definition has_key :: "'r report \<Rightarrow> string \<Rightarrow> bool" where
  "has_key r k = (map_of r k \<noteq> None)"

section \<open>The run identifier\<close>

text \<open>
  \<open>datetime.now()\<close>, and \<open>strftime("%Y%m%d_%H%M%S")\<close>: four digits of the year (the
  years 1000 to 9999), two of every other field, the microsecond left out.
\<close>

record datetime =
  year :: nat
  month :: nat
  day :: nat
  hour :: nat
  minute :: nat
  second :: nat
  microsecond :: nat

definition digit :: "nat \<Rightarrow> char" where
  "digit n = ''0123456789'' ! (n mod 10)"

definition pad2 :: "nat \<Rightarrow> string" where
  "pad2 n = [digit (n div 10), digit n]"

definition pad4 :: "nat \<Rightarrow> string" where
  "pad4 n = [digit (n div 1000), digit (n div 100), digit (n div 10), digit n]"

definition strftime_YmdHMS :: "datetime \<Rightarrow> string" where
  "strftime_YmdHMS t =
     pad4 (year t) @ pad2 (month t) @ pad2 (day t) @ ''_'' @
     pad2 (hour t) @ pad2 (minute t) @ pad2 (second t)"

text \<open>Lines 34-35: \<open>element_id = f"telegram_{user_id}_{timestamp}"\<close>.\<close>

definition element_id_of :: "string \<Rightarrow> datetime \<Rightarrow> string" where
  "element_id_of user_id t = ''telegram_'' @ user_id @ ''_'' @ strftime_YmdHMS t"

text \<open>
  Line 39: \<open>chronos_dir / "chronos_output" / f"{element_id}_text.txt"\<close>. The parts are
  joined as they are written: what \<open>pathlib\<close> does to the text of a path (a repeated
  \<open>/\<close> collapsed, the root directory not followed by a second \<open>/\<close>) is not modelled.
  The path is only an argument of the calls recorded in the events.
\<close>

definition output_text_file_of :: "string \<Rightarrow> string \<Rightarrow> string" where
  "output_text_file_of dir element_id =
     dir @ ''/chronos_output/'' @ element_id @ ''_text.txt''"

section \<open>The collaborators\<close>

text \<open>
  What one run of \<open>process_telegram_image\<close> meets outside itself: the clock, the
  directory of the module, the process environment, and the outcome of every call it
  makes to the file system and to the pipeline, pattern-discovery and verifier
  classes. \<open>'g\<close> is the type of the graph elements, \<open>'r\<close> of one verification result.
  \<open>process_document\<close> takes the input file, the output text file and the element id;
  \<open>mkdir_parent\<close> takes the output text file whose parent directory line 40 creates.
  What the collaborators return is typed as the bridge uses it: the extracted text is a
  string, the patterns are a list of dicts and the verification results are a list, so
  the \<open>len\<close> calls of lines 91 and 136-139 do not raise.
\<close>

record ('g, 'r) world =
  now :: datetime
  chronos_dir :: string
  environ :: "(string \<times> string) list"
  mkdir_parent :: "string \<Rightarrow> unit outcome"
  import_pipeline :: "unit outcome"
  pipeline_init :: "unit outcome"
  process_document :: "string \<Rightarrow> string \<Rightarrow> string \<Rightarrow> (string \<times> 'g) outcome"
  discovery_init :: "unit outcome"
  discover_patterns :: "nat \<Rightarrow> nat \<Rightarrow> pattern list outcome"
  discovery_close :: "unit outcome"
  verifier_init :: "unit outcome"
  verify_questions_sync :: "pat_value list \<Rightarrow> 'r list outcome"

text \<open>\<open>os.environ.get(k, d)\<close>.\<close>

definition environ_get :: "(string \<times> string) list \<Rightarrow> string \<Rightarrow> string \<Rightarrow> string" where
  "environ_get env k d = (case map_of env k of None \<Rightarrow> d | Some v \<Rightarrow> v)"

text \<open>
  The calls a run makes, in order. A call is recorded when it is made, whether it
  returns or raises.
\<close>

datatype event =
    Mkdir string
  | ImportPipeline
  | PipelineInit string string string
  | ProcessDocument string string string
  | DiscoveryInit string string string
  | DiscoverPatterns nat nat
  | DiscoveryClose
  | VerifierInit string
  | VerifyQuestions "pat_value list"

type_synonym 'a run = "event list \<times> 'a outcome"

definition call :: "event \<Rightarrow> 'a outcome \<Rightarrow> 'a run" where
  "call ev r = ([ev], r)"

definition pure_step :: "'a outcome \<Rightarrow> 'a run" where
  "pure_step r = ([], r)"

text \<open>Which calls belong to the pattern-discovery and to the verification stage.\<close>

fun discovery_call :: "event \<Rightarrow> bool" where
  "discovery_call (DiscoveryInit _ _ _) = True"
| "discovery_call (DiscoverPatterns _ _) = True"
| "discovery_call DiscoveryClose = True"
| "discovery_call _ = False"

fun verifier_call :: "event \<Rightarrow> bool" where
  "verifier_call (VerifierInit _) = True"
| "verifier_call (VerifyQuestions _) = True"
| "verifier_call _ = False"

text \<open>Sequencing inside the \<open>try\<close> block: an exception skips everything after it.\<close>

definition and_then :: "'a run \<Rightarrow> ('a \<Rightarrow> 'b run) \<Rightarrow> 'b run" where
  "and_then m f =
     (case m of
        (t, Inl e) \<Rightarrow> (t, Inl e)
      | (t, Inr x) \<Rightarrow> (case f x of (t', r) \<Rightarrow> (t @ t', r)))"

section \<open>process\_telegram\_image\<close>

text \<open>The three dicts the function returns (lines 115-119, 141-147 and 154-157).\<close>

definition no_hypotheses_report :: "string \<Rightarrow> 'r report" where
  "no_hypotheses_report extracted_text =
     [(''success'', PyBool False),
      (''error'', PyStr ''No hypotheses generated from the image''),
      (''ocr_text'', PyStr extracted_text)]"

definition success_report ::
  "pat_value list \<Rightarrow> 'r list \<Rightarrow> string \<Rightarrow> string \<Rightarrow> 'r report" where
  "success_report questions results extracted_text element_id =
     [(''success'', PyBool True),
      (''hypotheses'', PyList questions),
      (''verification_results'', PyResults results),
      (''ocr_text'', PyStr extracted_text),
      (''element_id'', PyStr element_id)]"

definition error_report :: "py_exception \<Rightarrow> 'r report" where
  "error_report e = [(''success'', PyBool False), (''error'', PyStr (message e))]"

text \<open>
  Lines 43-45: the Neo4j configuration, read from the environment before the
  \<open>try\<close>.
\<close>

definition NEO4J_URL :: "('g, 'r) world \<Rightarrow> string" where
  "NEO4J_URL w = environ_get (environ w) ''NEO4J_URL'' ''neo4j://127.0.0.1:7687''"

definition NEO4J_USERNAME :: "('g, 'r) world \<Rightarrow> string" where
  "NEO4J_USERNAME w = environ_get (environ w) ''NEO4J_USERNAME'' ''neo4j''"

definition NEO4J_PASSWORD :: "('g, 'r) world \<Rightarrow> string" where
  "NEO4J_PASSWORD w = environ_get (environ w) ''NEO4J_PASSWORD'' ''0123456789''"

text \<open>The body of the \<open>try\<close> block, lines 57-147.\<close>

definition try_block ::
  "('g, 'r) world \<Rightarrow> string \<Rightarrow> string \<Rightarrow> string \<Rightarrow> 'r report run" where
  "try_block w image_path element_id output_text_file =
     and_then (call ImportPipeline (import_pipeline w)) (\<lambda>_.
     and_then (call (PipelineInit (NEO4J_URL w) (NEO4J_USERNAME w) (NEO4J_PASSWORD w))
                 (pipeline_init w)) (\<lambda>_.
     and_then (call (ProcessDocument image_path output_text_file element_id)
                 (process_document w image_path output_text_file element_id))
       (\<lambda>(extracted_text, graph_elements).
     and_then (call (DiscoveryInit (NEO4J_URL w) (NEO4J_USERNAME w) (NEO4J_PASSWORD w))
                 (discovery_init w)) (\<lambda>_.
     and_then (call (DiscoverPatterns 3 5) (discover_patterns w 3 5)) (\<lambda>patterns.
     and_then (call DiscoveryClose (discovery_close w)) (\<lambda>_.
     and_then (pure_step (extract_questions patterns)) (\<lambda>questions.
     if questions = [] then pure_step (Inr (no_hypotheses_report extracted_text))
     else
     and_then (call (VerifierInit (chronos_dir w @ ''/hypothesis_results''))
                 (verifier_init w)) (\<lambda>_.
     and_then (call (VerifyQuestions questions) (verify_questions_sync w questions))
       (\<lambda>results.
     pure_step (Inr (success_report questions results extracted_text element_id))
     )))))))))"

text \<open>
  What the caller gets: the returned dict, or an exception that left the function.
\<close>

datatype 'r result = Raised py_exception | Returned "'r report"

text \<open>
  The whole function. Line 40, \<open>output_text_file.parent.mkdir(exist_ok=True)\<close>, stands
  before the \<open>try\<close>; the handler of lines 149-157 turns an exception of the block into
  the error dict. Printing is not modelled, and of the arguments of a call the events
  keep those that vary from run to run (the constant ones, such as \<open>ocr_config\<close> and
  \<open>kg_chunk_size=10000\<close>, are left out).
\<close>

definition process_telegram_image ::
  "('g, 'r) world \<Rightarrow> string \<Rightarrow> string \<Rightarrow> event list \<times> 'r result" where
  "process_telegram_image w image_path user_id =
     (let element_id = element_id_of user_id (now w);
          output_text_file = output_text_file_of (chronos_dir w) element_id
      in case mkdir_parent w output_text_file of
           Inl e \<Rightarrow> ([Mkdir output_text_file], Raised e)
         | Inr _ \<Rightarrow>
             (case try_block w image_path element_id output_text_file of
                (t, Inl e) \<Rightarrow> (Mkdir output_text_file # t, Returned (error_report e))
              | (t, Inr r) \<Rightarrow> (Mkdir output_text_file # t, Returned r)))"

text \<open>The values of \<open>element_id\<close> and \<open>output_text_file\<close> in a run.\<close>

abbreviation run_element_id :: "('g, 'r) world \<Rightarrow> string \<Rightarrow> string" where
  "run_element_id w user_id \<equiv> element_id_of user_id (now w)"

abbreviation run_output_text_file :: "('g, 'r) world \<Rightarrow> string \<Rightarrow> string" where
  "run_output_text_file w user_id \<equiv>
     output_text_file_of (chronos_dir w) (element_id_of user_id (now w))"

section \<open>The verification stage\<close>

text \<open>
  Modelled from the spec: the verdict of a verification result (section 3,
  VerificationResult); the module \<open>hypothesis_verifier\<close> is not among the sources.
\<close>

datatype verdict = Supported | Refuted | Inconclusive

text \<open>
  Modelled from the spec: a VerificationResult (section 3) of the missing module
  \<open>hypothesis_verifier\<close>: the question, the verdict, the evidence, and an error that is
  present only if the verification call itself failed.
\<close>

record verification_result =
  vr_question :: string
  vr_verdict :: "verdict option"
  vr_evidence :: "string list"
  vr_error :: "string option"

text \<open>
  Modelled from the spec: the verification of one question (section 4.4) by the
  missing \<open>HypothesisVerifier\<close>, given the external verification service \<open>svc\<close>
  (section 6: a question in, verdict and evidence out). A failure of the call becomes
  the result's \<open>error\<close> field.
\<close>

definition verify_one ::
  "(string \<Rightarrow> (verdict \<times> string list) outcome) \<Rightarrow> string \<Rightarrow> verification_result" where
  "verify_one svc q =
     (case svc q of
        Inl e \<Rightarrow>
          \<lparr>vr_question = q, vr_verdict = None, vr_evidence = [],
           vr_error = Some (message e)\<rparr>
      | Inr (v, ev) \<Rightarrow>
          \<lparr>vr_question = q, vr_verdict = Some v, vr_evidence = ev, vr_error = None\<rparr>)"

text \<open>
  Modelled from the spec: the entry of the missing \<open>verify_questions_sync\<close> for a
  question whose verification did not finish before the batch was cancelled
  (section 5): it is marked with an error rather than left out.
\<close>

definition unfinished :: "string \<Rightarrow> verification_result" where
  "unfinished q =
     \<lparr>vr_question = q, vr_verdict = None, vr_evidence = [], vr_error = Some ''cancelled''\<rparr>"

text \<open>
  Modelled from the spec: one completion inside the missing \<open>verify_questions_sync\<close>.
  The verifications run concurrently (section 5); when the one of question number \<open>i\<close>
  completes, its result is stored in slot \<open>i\<close>.
\<close>

definition record_completion ::
  "(string \<Rightarrow> (verdict \<times> string list) outcome) \<Rightarrow> string list \<Rightarrow> nat \<Rightarrow>
   verification_result option list \<Rightarrow> verification_result option list" where
  "record_completion svc qs i slots =
     (if i < length qs then slots[i := Some (verify_one svc (qs ! i))] else slots)"

text \<open>
  Modelled from the spec: \<open>HypothesisVerifier.verify_questions_sync\<close> (section 4.4,
  \<open>verify(questions) -> verification_results\<close>), whose module is not among the
  sources. \<open>completed\<close> lists the numbers of the questions in the order in which their
  verifications completed; a question it does not list was not finished.
\<close>

definition verify ::
  "(string \<Rightarrow> (verdict \<times> string list) outcome) \<Rightarrow> nat list \<Rightarrow> string list \<Rightarrow>
   verification_result list" where
  "verify svc completed qs =
     map (\<lambda>(q, slot). case slot of None \<Rightarrow> unfinished q | Some r \<Rightarrow> r)
       (zip qs (fold (record_completion svc qs) completed (replicate (length qs) None)))"

section \<open>The graph store\<close>

text \<open>
  Modelled from the spec: a node of a GraphElement set (section 3): a typed entity with
  a label and a mapping of property names to values. The class of the graph store that
  main.py calls is not among the sources.
\<close>

record node =
  node_type :: string
  node_label :: string
  node_properties :: "(string \<times> string) list"

text \<open>
  Modelled from the spec: a relationship of a GraphElement set (section 3): a typed,
  directed edge between two entities, with an optional property mapping.
\<close>

record relationship =
  rel_subj :: node
  rel_obj :: node
  rel_type :: string
  rel_properties :: "(string \<times> string) list"

text \<open>
  Modelled from the spec: a GraphElement set (section 3), the argument of the missing
  \<open>add_graph_elements\<close>.
\<close>

record graph_element =
  ge_nodes :: "node list"
  ge_relationships :: "relationship list"

text \<open>
  Modelled from the spec: the content of the graph store, which the source only
  reaches through \<open>n4j.add_graph_elements\<close>: the entities and edges it holds.
\<close>

record graph_store =
  stored_nodes :: "node list"
  stored_relationships :: "relationship list"

text \<open>
  Modelled from the spec: the merge of section 4.2 inside the missing
  \<open>add_graph_elements\<close>: an element whose identity \<open>key\<close> the store already holds
  replaces the stored one, any other is added.
\<close>

fun merge_by :: "('a \<Rightarrow> 'k) \<Rightarrow> 'a \<Rightarrow> 'a list \<Rightarrow> 'a list" where
  "merge_by key x [] = [x]"
| "merge_by key x (y # ys) =
     (if key y = key x then x # ys else y # merge_by key x ys)"

text \<open>
  Modelled from the spec: the identity of a relationship in the missing graph store,
  from the identities of its endpoints and its type.
\<close>

definition rel_identity :: "(node \<Rightarrow> 'k) \<Rightarrow> relationship \<Rightarrow> 'k \<times> string \<times> 'k" where
  "rel_identity ident r = (ident (rel_subj r), rel_type r, ident (rel_obj r))"

text \<open>
  Modelled from the spec: the commit of one GraphElement set (section 6, "commit
  GraphElement set"; \<open>add_graph_elements\<close> of the graph-store class, not among the
  sources). \<open>ident\<close> is the identity of a node: any function of the node itself, as
  section 4.2 requires (derived from its identifying properties, not from a counter of
  the run).
\<close>

definition commit :: "(node \<Rightarrow> 'k) \<Rightarrow> graph_element \<Rightarrow> graph_store \<Rightarrow> graph_store" where
  "commit ident g s =
     \<lparr>stored_nodes = fold (merge_by ident) (ge_nodes g) (stored_nodes s),
      stored_relationships =
        fold (merge_by (rel_identity ident)) (ge_relationships g) (stored_relationships s)\<rparr>"

text \<open>Modelled from the spec: the graph store before any commit.\<close>

definition empty_store :: graph_store where
  "empty_store = \<lparr>stored_nodes = [], stored_relationships = []\<rparr>"

section \<open>Sample runs\<close>

text \<open>
  A run in which every collaborator returns: five patterns are discovered, of which two
  carry a question.
\<close>

definition sample_world :: "(unit, string) world" where
  "sample_world =
     \<lparr>now = \<lparr>year = 2024, month = 3, day = 9, hour = 14, minute = 5, second = 7,
              microsecond = 120000\<rparr>,
      chronos_dir = ''/srv/chronos'',
      environ = [(''NEO4J_URL'', ''neo4j://db:7687'')],
      mkdir_parent = (\<lambda>_. Inr ()),
      import_pipeline = Inr (),
      pipeline_init = Inr (),
      process_document = (\<lambda>_ _ _. Inr (''Patient has fever and cough.'', ())),
      discovery_init = Inr (),
      discover_patterns = (\<lambda>_ _.
        Inr [[(''question'', PStr ''Does fever cause cough?'')],
             [(''path_length'', PStr ''2'')],
             [(''question'', PNone)],
             [(''question'', PStr '''')],
             [(''question'', PStr ''Is cough a symptom?'')]]),
      discovery_close = Inr (),
      verifier_init = Inr (),
      verify_questions_sync = (\<lambda>qs. Inr (map (\<lambda>q. ''inconclusive'') qs))\<rparr>"

text \<open>The same run, but no discovered pattern carries a question.\<close>

definition no_questions_world :: "(unit, string) world" where
  "no_questions_world =
     sample_world\<lparr>discover_patterns := (\<lambda>_ _.
        Inr [[(''path_length'', PStr ''2'')], [(''question'', PNone)],
             [(''question'', PStr '''')]])\<rparr>"

text \<open>The same run, but \<open>pipeline.process_document\<close> raises.\<close>

definition graph_failure_world :: "(unit, string) world" where
  "graph_failure_world =
     sample_world\<lparr>process_document :=
        (\<lambda>_ _ _. Inl (PyException ''Neo4j unavailable''))\<rparr>"

text \<open>The same run, but \<open>discover_patterns\<close> raises.\<close>

definition discovery_failure_world :: "(unit, string) world" where
  "discovery_failure_world =
     sample_world\<lparr>discover_patterns := (\<lambda>_ _. Inl (PyException ''Neo4j unavailable''))\<rparr>"

text \<open>
  The same run on a checkout in which the directory \<open>chronos_output\<close> does not exist
  yet. \<open>mkdir(exist_ok=True)\<close> creates it when it is the parent of the output file, and
  raises \<open>FileNotFoundError\<close> when the parent lies deeper, which is when the file name
  has a further \<open>/\<close>.
\<close>

definition fresh_checkout_world :: "(unit, string) world" where
  "fresh_checkout_world =
     sample_world\<lparr>mkdir_parent := (\<lambda>out.
        if CHR ''/'' \<in> set (drop (length ''/srv/chronos/chronos_output/'') out)
        then Inl (PyException ''[Errno 2] No such file or directory'')
        else Inr ())\<rparr>"

section \<open>Running the model\<close>

lemma and_then_call:
  "and_then (call ev r) f =
     (case r of Inl e \<Rightarrow> ([ev], Inl e) | Inr x \<Rightarrow> (ev # fst (f x), snd (f x)))"
  by (simp add: and_then_def call_def split: sum.splits prod.splits)

lemma and_then_pure:
  "and_then (pure_step r) f = (case r of Inl e \<Rightarrow> ([], Inl e) | Inr x \<Rightarrow> f x)"
  by (simp add: and_then_def pure_step_def split: sum.splits prod.splits)

lemma fst_pure_step: "fst (pure_step r) = []"
  by (simp add: pure_step_def)

lemma snd_pure_step: "snd (pure_step r) = r"
  by (simp add: pure_step_def)

text \<open>
  The comprehension of line 111 never raises: \<open>p['question']\<close> is read only where
  \<open>p.get('question')\<close> is true, so the key is there.
\<close>

lemma extract_questions_eq:
  "extract_questions ps = Inr (filter truthy (map (\<lambda>p. dict_get p ''question'') ps))"
  by (induction ps) (auto simp: dict_get_def dict_item_def split: option.splits)

lemma truthy_iff: "truthy v \<longleftrightarrow> v \<noteq> PNone \<and> v \<noteq> PStr []"
  by (cases v) auto

lemmas run_simps =
  and_then_call and_then_pure fst_pure_step snd_pure_step extract_questions_eq

lemmas report_defs = no_hypotheses_report_def success_report_def error_report_def Let_def

lemmas id_defs =
  element_id_of_def output_text_file_of_def strftime_YmdHMS_def pad2_def pad4_def
  digit_def NEO4J_URL_def NEO4J_USERNAME_def NEO4J_PASSWORD_def environ_get_def

text \<open>The sample runs, evaluated.\<close>

lemma sample_run:
  "process_telegram_image sample_world ''/tmp/scan.png'' ''42'' =
     ([Mkdir ''/srv/chronos/chronos_output/telegram_42_20240309_140507_text.txt'',
       ImportPipeline,
       PipelineInit ''neo4j://db:7687'' ''neo4j'' ''0123456789'',
       ProcessDocument ''/tmp/scan.png''
         ''/srv/chronos/chronos_output/telegram_42_20240309_140507_text.txt''
         ''telegram_42_20240309_140507'',
       DiscoveryInit ''neo4j://db:7687'' ''neo4j'' ''0123456789'',
       DiscoverPatterns 3 5,
       DiscoveryClose,
       VerifierInit ''/srv/chronos/hypothesis_results'',
       VerifyQuestions [PStr ''Does fever cause cough?'', PStr ''Is cough a symptom?'']],
      Returned
        [(''success'', PyBool True),
         (''hypotheses'',
          PyList [PStr ''Does fever cause cough?'', PStr ''Is cough a symptom?'']),
         (''verification_results'', PyResults [''inconclusive'', ''inconclusive'']),
         (''ocr_text'', PyStr ''Patient has fever and cough.''),
         (''element_id'', PyStr ''telegram_42_20240309_140507'')])"
  by (simp add: process_telegram_image_def try_block_def sample_world_def run_simps
      report_defs id_defs dict_get_def)

lemma no_questions_run:
  "process_telegram_image no_questions_world ''/tmp/scan.png'' ''42'' =
     ([Mkdir ''/srv/chronos/chronos_output/telegram_42_20240309_140507_text.txt'',
       ImportPipeline,
       PipelineInit ''neo4j://db:7687'' ''neo4j'' ''0123456789'',
       ProcessDocument ''/tmp/scan.png''
         ''/srv/chronos/chronos_output/telegram_42_20240309_140507_text.txt''
         ''telegram_42_20240309_140507'',
       DiscoveryInit ''neo4j://db:7687'' ''neo4j'' ''0123456789'',
       DiscoverPatterns 3 5,
       DiscoveryClose],
      Returned
        [(''success'', PyBool False),
         (''error'', PyStr ''No hypotheses generated from the image''),
         (''ocr_text'', PyStr ''Patient has fever and cough.'')])"
  by (simp add: process_telegram_image_def try_block_def no_questions_world_def
      sample_world_def run_simps report_defs id_defs dict_get_def)

lemma graph_failure_run:
  "process_telegram_image graph_failure_world ''/tmp/scan.png'' ''42'' =
     ([Mkdir ''/srv/chronos/chronos_output/telegram_42_20240309_140507_text.txt'',
       ImportPipeline,
       PipelineInit ''neo4j://db:7687'' ''neo4j'' ''0123456789'',
       ProcessDocument ''/tmp/scan.png''
         ''/srv/chronos/chronos_output/telegram_42_20240309_140507_text.txt''
         ''telegram_42_20240309_140507''],
      Returned [(''success'', PyBool False), (''error'', PyStr ''Neo4j unavailable'')])"
  by (simp add: process_telegram_image_def try_block_def graph_failure_world_def
      sample_world_def run_simps report_defs id_defs dict_get_def)

lemma discovery_failure_run:
  "process_telegram_image discovery_failure_world ''/tmp/scan.png'' ''42'' =
     ([Mkdir ''/srv/chronos/chronos_output/telegram_42_20240309_140507_text.txt'',
       ImportPipeline,
       PipelineInit ''neo4j://db:7687'' ''neo4j'' ''0123456789'',
       ProcessDocument ''/tmp/scan.png''
         ''/srv/chronos/chronos_output/telegram_42_20240309_140507_text.txt''
         ''telegram_42_20240309_140507'',
       DiscoveryInit ''neo4j://db:7687'' ''neo4j'' ''0123456789'',
       DiscoverPatterns 3 5],
      Returned [(''success'', PyBool False), (''error'', PyStr ''Neo4j unavailable'')])"
  by (simp add: process_telegram_image_def try_block_def discovery_failure_world_def
      sample_world_def run_simps report_defs id_defs dict_get_def)

lemma fresh_checkout_run:
  "process_telegram_image fresh_checkout_world ''/tmp/scan.png'' ''a/b'' =
     ([Mkdir ''/srv/chronos/chronos_output/telegram_a/b_20240309_140507_text.txt''],
      Raised (PyException ''[Errno 2] No such file or directory''))"
  by (simp add: process_telegram_image_def fresh_checkout_world_def sample_world_def id_defs
      Let_def)

section \<open>Shapes of the run\<close>

text \<open>
  What a returned dict can be: the success dict, the no-hypotheses dict or the error
  dict, each with the values it was built from. The exception \<open>e\<close> of the error dict is
  the one raised by the first call of the \<open>try\<close> block that raised, every call before
  it having returned.
\<close>

lemma returned_cases:
  assumes "snd (process_telegram_image w image_path user_id) = Returned r"
  shows "(\<exists>text g ps qs rs.
            process_document w image_path (run_output_text_file w user_id)
              (run_element_id w user_id) = Inr (text, g) \<and>
            discover_patterns w 3 5 = Inr ps \<and>
            extract_questions ps = Inr qs \<and> qs \<noteq> [] \<and>
            verify_questions_sync w qs = Inr rs \<and>
            r = success_report qs rs text (run_element_id w user_id))
       \<or> (\<exists>text g ps.
            process_document w image_path (run_output_text_file w user_id)
              (run_element_id w user_id) = Inr (text, g) \<and>
            discover_patterns w 3 5 = Inr ps \<and>
            extract_questions ps = Inr [] \<and>
            r = no_hypotheses_report text)
       \<or> (\<exists>e. r = error_report e \<and>
          (import_pipeline w = Inl e
           \<or> import_pipeline w = Inr () \<and> pipeline_init w = Inl e
           \<or> import_pipeline w = Inr () \<and> pipeline_init w = Inr () \<and>
             process_document w image_path (run_output_text_file w user_id)
               (run_element_id w user_id) = Inl e
           \<or> (\<exists>text g.
                import_pipeline w = Inr () \<and> pipeline_init w = Inr () \<and>
                process_document w image_path (run_output_text_file w user_id)
                  (run_element_id w user_id) = Inr (text, g) \<and>
                (discovery_init w = Inl e
                 \<or> discovery_init w = Inr () \<and> discover_patterns w 3 5 = Inl e
                 \<or> (\<exists>ps qs.
                      discovery_init w = Inr () \<and> discover_patterns w 3 5 = Inr ps \<and>
                      (discovery_close w = Inl e
                       \<or> discovery_close w = Inr () \<and>
                         extract_questions ps = Inr qs \<and> qs \<noteq> [] \<and>
                         (verifier_init w = Inl e
                          \<or> verifier_init w = Inr () \<and>
                            verify_questions_sync w qs = Inl e)))))))"
  using assms
  by (auto simp: process_telegram_image_def try_block_def run_simps Let_def
      split: sum.splits prod.splits if_splits)

text \<open>
  An exception leaves the function only from line 40, before the \<open>try\<close>: every exception
  of the block is turned into the error dict.
\<close>

lemma returns_when_mkdir_returns:
  assumes "mkdir_parent w (run_output_text_file w user_id) = Inr u"
  shows "\<exists>r. snd (process_telegram_image w image_path user_id) = Returned r"
  using assms
  by (auto simp: process_telegram_image_def Let_def split: sum.splits prod.splits)

lemma raised_only_by_mkdir:
  assumes "snd (process_telegram_image w image_path user_id) = Raised e"
  shows "mkdir_parent w (run_output_text_file w user_id) = Inl e"
  using assms
  by (auto simp: process_telegram_image_def Let_def split: sum.splits prod.splits)

section \<open>The claims\<close>

text \<open>
  C1, as the code has it. When the list of rendered questions is empty, the function
  returns the dict \<open>{"success": False, "error": "No hypotheses generated from the
  image", "ocr_text": extracted_text}\<close>: it carries the same \<open>success = False\<close> as a
  failed run and differs from every error dict of the handler (it has the key
  \<open>ocr_text\<close>); the calls made are those up to \<open>pattern_discovery.close()\<close>, so neither
  the verifier's constructor nor \<open>verify_questions_sync\<close> is called.
\<close>

theorem zero_questions_report:
  assumes "mkdir_parent w (run_output_text_file w user_id) = Inr ()"
    and "import_pipeline w = Inr ()"
    and "pipeline_init w = Inr ()"
    and "process_document w image_path (run_output_text_file w user_id)
           (run_element_id w user_id) = Inr (text, g)"
    and "discovery_init w = Inr ()"
    and "discover_patterns w 3 5 = Inr ps"
    and "discovery_close w = Inr ()"
    and "extract_questions ps = Inr []"
  shows "process_telegram_image w image_path user_id =
           ([Mkdir (run_output_text_file w user_id),
             ImportPipeline,
             PipelineInit (NEO4J_URL w) (NEO4J_USERNAME w) (NEO4J_PASSWORD w),
             ProcessDocument image_path (run_output_text_file w user_id)
               (run_element_id w user_id),
             DiscoveryInit (NEO4J_URL w) (NEO4J_USERNAME w) (NEO4J_PASSWORD w),
             DiscoverPatterns 3 5,
             DiscoveryClose],
            Returned
              [(''success'', PyBool False),
               (''error'', PyStr ''No hypotheses generated from the image''),
               (''ocr_text'', PyStr text)])
       \<and> \<not> list_ex verifier_call (fst (process_telegram_image w image_path user_id))
       \<and> (\<forall>e. snd (process_telegram_image w image_path user_id) \<noteq>
                Returned (error_report e))"
proof -
  have questions: "filter truthy (map (\<lambda>p. dict_get p ''question'') ps) = []"
    using assms(8) by (simp add: extract_questions_eq)
  have run: "process_telegram_image w image_path user_id =
           ([Mkdir (run_output_text_file w user_id),
             ImportPipeline,
             PipelineInit (NEO4J_URL w) (NEO4J_USERNAME w) (NEO4J_PASSWORD w),
             ProcessDocument image_path (run_output_text_file w user_id)
               (run_element_id w user_id),
             DiscoveryInit (NEO4J_URL w) (NEO4J_USERNAME w) (NEO4J_PASSWORD w),
             DiscoverPatterns 3 5,
             DiscoveryClose],
            Returned (no_hypotheses_report text))"
    using assms(1-7) questions
    by (simp add: process_telegram_image_def try_block_def run_simps Let_def)
  show ?thesis
    unfolding run by (simp add: no_hypotheses_report_def error_report_def)
qed

theorem zero_questions_report_witness:
  "extract_questions
     [[(''path_length'', PStr ''2'')], [(''question'', PNone)], [(''question'', PStr '''')]]
     = Inr []
   \<and> process_telegram_image no_questions_world ''/tmp/scan.png'' ''42'' =
       ([Mkdir ''/srv/chronos/chronos_output/telegram_42_20240309_140507_text.txt'',
         ImportPipeline,
         PipelineInit ''neo4j://db:7687'' ''neo4j'' ''0123456789'',
         ProcessDocument ''/tmp/scan.png''
           ''/srv/chronos/chronos_output/telegram_42_20240309_140507_text.txt''
           ''telegram_42_20240309_140507'',
         DiscoveryInit ''neo4j://db:7687'' ''neo4j'' ''0123456789'',
         DiscoverPatterns 3 5,
         DiscoveryClose],
        Returned
          [(''success'', PyBool False),
           (''error'', PyStr ''No hypotheses generated from the image''),
           (''ocr_text'', PyStr ''Patient has fever and cough.'')])
   \<and> \<not> list_ex verifier_call
         (fst (process_telegram_image no_questions_world ''/tmp/scan.png'' ''42''))"
proof -
  have empty: "extract_questions
     [[(''path_length'', PStr ''2'')], [(''question'', PNone)], [(''question'', PStr '''')]]
     = Inr []"
    by (simp add: dict_get_def)
  have "process_telegram_image no_questions_world ''/tmp/scan.png'' ''42'' =
          ([Mkdir (run_output_text_file no_questions_world ''42''),
            ImportPipeline,
            PipelineInit (NEO4J_URL no_questions_world) (NEO4J_USERNAME no_questions_world)
              (NEO4J_PASSWORD no_questions_world),
            ProcessDocument ''/tmp/scan.png'' (run_output_text_file no_questions_world ''42'')
              (run_element_id no_questions_world ''42''),
            DiscoveryInit (NEO4J_URL no_questions_world) (NEO4J_USERNAME no_questions_world)
              (NEO4J_PASSWORD no_questions_world),
            DiscoverPatterns 3 5,
            DiscoveryClose],
           Returned
             [(''success'', PyBool False),
              (''error'', PyStr ''No hypotheses generated from the image''),
              (''ocr_text'', PyStr ''Patient has fever and cough.'')])
       \<and> \<not> list_ex verifier_call
             (fst (process_telegram_image no_questions_world ''/tmp/scan.png'' ''42''))
       \<and> (\<forall>e. snd (process_telegram_image no_questions_world ''/tmp/scan.png'' ''42'') \<noteq>
                Returned (error_report e))"
    by (rule zero_questions_report [where g = "()" and ps =
          "[[(''path_length'', PStr ''2'')], [(''question'', PNone)],
            [(''question'', PStr '''')]]"])
       (simp_all add: no_questions_world_def sample_world_def dict_get_def)
  then show ?thesis
    using empty by (simp add: no_questions_world_def sample_world_def id_defs)
qed

text \<open>
  C1, as the spec states it, fails: the run with no questions does not end in a status
  of its own. Its dict has \<open>success = False\<close> and an \<open>error\<close> entry, as the dict of a
  run whose graph construction failed has.
\<close>

theorem zero_questions_not_completed:
  "map_of (no_hypotheses_report ''Patient has fever and cough.'' :: string report)
      ''success'' = Some (PyBool False)
   \<and> snd (process_telegram_image no_questions_world ''/tmp/scan.png'' ''42'') =
       Returned (no_hypotheses_report ''Patient has fever and cough.'')
   \<and> map_of (error_report (PyException ''Neo4j unavailable'') :: string report)
       ''success'' = Some (PyBool False)
   \<and> snd (process_telegram_image graph_failure_world ''/tmp/scan.png'' ''42'') =
       Returned (error_report (PyException ''Neo4j unavailable''))"
  by (simp add: no_questions_run graph_failure_run report_defs)

text \<open>
  C2, as the code has it. Every returned dict carries the final status as the boolean
  \<open>success\<close> and either the full results or the failure reason: the success dict holds
  the questions (\<open>hypotheses\<close>), the verifier's results (\<open>verification_results\<close>), the
  extracted text (\<open>ocr_text\<close>) and the run identifier (\<open>element_id\<close>); the no-hypotheses
  dict holds a fixed \<open>error\<close> and the extracted text; the error dict of the handler
  holds \<open>error = str(e)\<close> only, \<open>e\<close> being the exception raised by the first call of
  the \<open>try\<close> block that raised. So the run identifier is carried by the success dict
  alone, the extracted text (not its length) by the first two, and no dict carries a
  count of patterns, questions or verifications.
\<close>

theorem report_contents:
  assumes "snd (process_telegram_image w image_path user_id) = Returned r"
  shows "(\<exists>text g ps qs rs.
            process_document w image_path (run_output_text_file w user_id)
              (run_element_id w user_id) = Inr (text, g) \<and>
            discover_patterns w 3 5 = Inr ps \<and>
            extract_questions ps = Inr qs \<and> qs \<noteq> [] \<and>
            verify_questions_sync w qs = Inr rs \<and>
            r = [(''success'', PyBool True),
                 (''hypotheses'', PyList qs),
                 (''verification_results'', PyResults rs),
                 (''ocr_text'', PyStr text),
                 (''element_id'', PyStr (run_element_id w user_id))])
       \<or> (\<exists>text g ps.
            process_document w image_path (run_output_text_file w user_id)
              (run_element_id w user_id) = Inr (text, g) \<and>
            discover_patterns w 3 5 = Inr ps \<and>
            extract_questions ps = Inr [] \<and>
            r = [(''success'', PyBool False),
                 (''error'', PyStr ''No hypotheses generated from the image''),
                 (''ocr_text'', PyStr text)])
       \<or> (\<exists>e. r = [(''success'', PyBool False), (''error'', PyStr (message e))] \<and>
          (import_pipeline w = Inl e
           \<or> import_pipeline w = Inr () \<and> pipeline_init w = Inl e
           \<or> import_pipeline w = Inr () \<and> pipeline_init w = Inr () \<and>
             process_document w image_path (run_output_text_file w user_id)
               (run_element_id w user_id) = Inl e
           \<or> (\<exists>text g.
                import_pipeline w = Inr () \<and> pipeline_init w = Inr () \<and>
                process_document w image_path (run_output_text_file w user_id)
                  (run_element_id w user_id) = Inr (text, g) \<and>
                (discovery_init w = Inl e
                 \<or> discovery_init w = Inr () \<and> discover_patterns w 3 5 = Inl e
                 \<or> (\<exists>ps qs.
                      discovery_init w = Inr () \<and> discover_patterns w 3 5 = Inr ps \<and>
                      (discovery_close w = Inl e
                       \<or> discovery_close w = Inr () \<and>
                         extract_questions ps = Inr qs \<and> qs \<noteq> [] \<and>
                         (verifier_init w = Inl e
                          \<or> verifier_init w = Inr () \<and>
                            verify_questions_sync w qs = Inl e)))))))"
  using returned_cases [OF assms]
  unfolding success_report_def no_hypotheses_report_def error_report_def
  by blast

theorem report_contents_witness:
  "snd (process_telegram_image sample_world ''/tmp/scan.png'' ''42'') =
     Returned
       [(''success'', PyBool True),
        (''hypotheses'',
         PyList [PStr ''Does fever cause cough?'', PStr ''Is cough a symptom?'']),
        (''verification_results'', PyResults [''inconclusive'', ''inconclusive'']),
        (''ocr_text'', PyStr ''Patient has fever and cough.''),
        (''element_id'', PyStr ''telegram_42_20240309_140507'')]
   \<and> (\<exists>text ps qs rs.
         process_document sample_world ''/tmp/scan.png''
           (run_output_text_file sample_world ''42'') (run_element_id sample_world ''42'')
           = Inr (text, ()) \<and>
         discover_patterns sample_world 3 5 = Inr ps \<and>
         extract_questions ps = Inr qs \<and>
         verify_questions_sync sample_world qs = Inr rs \<and>
         qs = [PStr ''Does fever cause cough?'', PStr ''Is cough a symptom?''] \<and>
         rs = [''inconclusive'', ''inconclusive''] \<and>
         text = ''Patient has fever and cough.'')
   \<and> snd (process_telegram_image discovery_failure_world ''/tmp/scan.png'' ''42'') =
       Returned [(''success'', PyBool False), (''error'', PyStr ''Neo4j unavailable'')]
   \<and> (\<exists>e. discover_patterns discovery_failure_world 3 5 = Inl e \<and>
            message e = ''Neo4j unavailable'' \<and>
            snd (process_telegram_image discovery_failure_world ''/tmp/scan.png'' ''42'') =
              Returned [(''success'', PyBool False), (''error'', PyStr (message e))])"
proof -
  let ?r = "[(''success'', PyBool True),
        (''hypotheses'',
         PyList [PStr ''Does fever cause cough?'', PStr ''Is cough a symptom?'']),
        (''verification_results'', PyResults [''inconclusive'', ''inconclusive'']),
        (''ocr_text'', PyStr ''Patient has fever and cough.''),
        (''element_id'', PyStr ''telegram_42_20240309_140507'')] :: string report"
  let ?f = "[(''success'', PyBool False), (''error'', PyStr ''Neo4j unavailable'')]
        :: string report"
  have returned:
    "snd (process_telegram_image sample_world ''/tmp/scan.png'' ''42'') = Returned ?r"
    by (simp add: sample_run)
  have failed:
    "snd (process_telegram_image discovery_failure_world ''/tmp/scan.png'' ''42'') =
       Returned ?f"
    by (simp add: discovery_failure_run)
  have success_part: "\<exists>text ps qs rs.
         process_document sample_world ''/tmp/scan.png''
           (run_output_text_file sample_world ''42'') (run_element_id sample_world ''42'')
           = Inr (text, ()) \<and>
         discover_patterns sample_world 3 5 = Inr ps \<and>
         extract_questions ps = Inr qs \<and>
         verify_questions_sync sample_world qs = Inr rs \<and>
         qs = [PStr ''Does fever cause cough?'', PStr ''Is cough a symptom?''] \<and>
         rs = [''inconclusive'', ''inconclusive''] \<and>
         text = ''Patient has fever and cough.''"
    using report_contents [OF returned] by auto
  have oracles:
    "import_pipeline discovery_failure_world = Inr ()"
    "pipeline_init discovery_failure_world = Inr ()"
    "discovery_init discovery_failure_world = Inr ()"
    "discover_patterns discovery_failure_world 3 5 = Inl (PyException ''Neo4j unavailable'')"
    "\<And>a b c. process_document discovery_failure_world a b c =
       Inr (''Patient has fever and cough.'', ())"
    by (simp_all add: discovery_failure_world_def sample_world_def)
  have failure_part: "\<exists>e. discover_patterns discovery_failure_world 3 5 = Inl e \<and>
            message e = ''Neo4j unavailable'' \<and>
            snd (process_telegram_image discovery_failure_world ''/tmp/scan.png'' ''42'') =
              Returned [(''success'', PyBool False), (''error'', PyStr (message e))]"
    using report_contents [OF failed] failed by (auto simp: oracles)
  show ?thesis
    using returned failed success_part failure_part by blast
qed

text \<open>
  C2, as the spec states it, fails: the dict of a run in which pattern discovery raised
  has the two keys \<open>success\<close> and \<open>error\<close>, and neither the run identifier nor the
  extracted text.
\<close>

theorem failure_report_lacks_run_id:
  "snd (process_telegram_image discovery_failure_world ''/tmp/scan.png'' ''42'') =
     Returned [(''success'', PyBool False), (''error'', PyStr ''Neo4j unavailable'')]
   \<and> \<not> has_key
         ([(''success'', PyBool False), (''error'', PyStr ''Neo4j unavailable'')]
            :: string report) ''element_id''
   \<and> \<not> has_key
         ([(''success'', PyBool False), (''error'', PyStr ''Neo4j unavailable'')]
            :: string report) ''ocr_text''"
  by (simp add: discovery_failure_run has_key_def)

text \<open>
  C4, as the code has it. When \<open>pipeline.process_document\<close> (extraction and graph
  construction) raises \<open>e\<close>, the function returns \<open>{"success": False, "error": str(e)}\<close>,
  which names no stage, and the call of \<open>process_document\<close> is the last one of the run:
  neither pattern discovery nor verification is invoked.
\<close>

theorem graph_failure_short_circuit:
  assumes "mkdir_parent w (run_output_text_file w user_id) = Inr ()"
    and "import_pipeline w = Inr ()"
    and "pipeline_init w = Inr ()"
    and "process_document w image_path (run_output_text_file w user_id)
           (run_element_id w user_id) = Inl e"
  shows "process_telegram_image w image_path user_id =
           ([Mkdir (run_output_text_file w user_id),
             ImportPipeline,
             PipelineInit (NEO4J_URL w) (NEO4J_USERNAME w) (NEO4J_PASSWORD w),
             ProcessDocument image_path (run_output_text_file w user_id)
               (run_element_id w user_id)],
            Returned [(''success'', PyBool False), (''error'', PyStr (message e))])
       \<and> \<not> list_ex discovery_call (fst (process_telegram_image w image_path user_id))
       \<and> \<not> list_ex verifier_call (fst (process_telegram_image w image_path user_id))"
proof -
  have run: "process_telegram_image w image_path user_id =
           ([Mkdir (run_output_text_file w user_id),
             ImportPipeline,
             PipelineInit (NEO4J_URL w) (NEO4J_USERNAME w) (NEO4J_PASSWORD w),
             ProcessDocument image_path (run_output_text_file w user_id)
               (run_element_id w user_id)],
            Returned (error_report e))"
    using assms
    by (simp add: process_telegram_image_def try_block_def run_simps Let_def)
  show ?thesis
    unfolding run by (simp add: error_report_def)
qed

theorem graph_failure_short_circuit_witness:
  "process_document graph_failure_world ''/tmp/scan.png''
      (run_output_text_file graph_failure_world ''42'')
      (run_element_id graph_failure_world ''42'') = Inl (PyException ''Neo4j unavailable'')
   \<and> process_telegram_image graph_failure_world ''/tmp/scan.png'' ''42'' =
       ([Mkdir ''/srv/chronos/chronos_output/telegram_42_20240309_140507_text.txt'',
         ImportPipeline,
         PipelineInit ''neo4j://db:7687'' ''neo4j'' ''0123456789'',
         ProcessDocument ''/tmp/scan.png''
           ''/srv/chronos/chronos_output/telegram_42_20240309_140507_text.txt''
           ''telegram_42_20240309_140507''],
        Returned [(''success'', PyBool False), (''error'', PyStr ''Neo4j unavailable'')])
   \<and> \<not> list_ex discovery_call
         (fst (process_telegram_image graph_failure_world ''/tmp/scan.png'' ''42''))
   \<and> \<not> list_ex verifier_call
         (fst (process_telegram_image graph_failure_world ''/tmp/scan.png'' ''42''))"
proof -
  have raises: "process_document graph_failure_world ''/tmp/scan.png''
      (run_output_text_file graph_failure_world ''42'')
      (run_element_id graph_failure_world ''42'') = Inl (PyException ''Neo4j unavailable'')"
    by (simp add: graph_failure_world_def sample_world_def)
  have "process_telegram_image graph_failure_world ''/tmp/scan.png'' ''42'' =
           ([Mkdir (run_output_text_file graph_failure_world ''42''),
             ImportPipeline,
             PipelineInit (NEO4J_URL graph_failure_world) (NEO4J_USERNAME graph_failure_world)
               (NEO4J_PASSWORD graph_failure_world),
             ProcessDocument ''/tmp/scan.png'' (run_output_text_file graph_failure_world ''42'')
               (run_element_id graph_failure_world ''42'')],
            Returned
              [(''success'', PyBool False),
               (''error'', PyStr (message (PyException ''Neo4j unavailable'')))])
       \<and> \<not> list_ex discovery_call
             (fst (process_telegram_image graph_failure_world ''/tmp/scan.png'' ''42''))
       \<and> \<not> list_ex verifier_call
             (fst (process_telegram_image graph_failure_world ''/tmp/scan.png'' ''42''))"
    by (rule graph_failure_short_circuit [OF _ _ _ raises])
       (simp_all add: graph_failure_world_def sample_world_def)
  then show ?thesis
    using raises by (simp add: graph_failure_world_def sample_world_def id_defs)
qed

text \<open>
  C4, as the spec states it, fails: the dict carries no stage name. A run whose graph
  construction raised and a run whose pattern discovery raised with the same message
  return the same dict, so nothing in it tells the stage.
\<close>

theorem failure_report_names_no_stage:
  "snd (process_telegram_image graph_failure_world ''/tmp/scan.png'' ''42'') =
     snd (process_telegram_image discovery_failure_world ''/tmp/scan.png'' ''42'')
   \<and> fst (process_telegram_image graph_failure_world ''/tmp/scan.png'' ''42'') \<noteq>
       fst (process_telegram_image discovery_failure_world ''/tmp/scan.png'' ''42'')
   \<and> map fst (error_report (PyException ''Neo4j unavailable'') :: string report) =
       [''success'', ''error'']"
  by (simp add: graph_failure_run discovery_failure_run error_report_def)

text \<open>
  C9. Every dict the function returns has a boolean at the key \<open>success\<close>; it has the key
  \<open>error\<close> exactly when \<open>success\<close> is \<open>False\<close>; and when \<open>success\<close> is \<open>True\<close> it has the
  keys \<open>hypotheses\<close>, \<open>verification_results\<close>, \<open>ocr_text\<close> and \<open>element_id\<close>.
\<close>

theorem report_keys:
  assumes "snd (process_telegram_image w image_path user_id) = Returned r"
  shows "\<exists>b. map_of r ''success'' = Some (PyBool b) \<and>
             (has_key r ''error'' \<longleftrightarrow> \<not> b) \<and>
             (b \<longrightarrow> has_key r ''hypotheses'' \<and> has_key r ''verification_results'' \<and>
                    has_key r ''ocr_text'' \<and> has_key r ''element_id'')"
proof -
  consider
    (success) qs rs body where "r = success_report qs rs body (run_element_id w user_id)"
  | (no_hypotheses) body where "r = no_hypotheses_report body"
  | (error) e where "r = error_report e"
    using returned_cases [OF assms] by blast
  then show ?thesis
  proof cases
    case success
    then show ?thesis
      by (intro exI [of _ True]) (simp add: success_report_def has_key_def)
  next
    case no_hypotheses
    then show ?thesis
      by (intro exI [of _ False]) (simp add: no_hypotheses_report_def has_key_def)
  next
    case error
    then show ?thesis
      by (intro exI [of _ False]) (simp add: error_report_def has_key_def)
  qed
qed

theorem report_keys_witness:
  "snd (process_telegram_image sample_world ''/tmp/scan.png'' ''42'') =
     Returned (success_report
       [PStr ''Does fever cause cough?'', PStr ''Is cough a symptom?'']
       [''inconclusive'', ''inconclusive''] ''Patient has fever and cough.''
       ''telegram_42_20240309_140507'')
   \<and> (\<exists>b. map_of (success_report
              [PStr ''Does fever cause cough?'', PStr ''Is cough a symptom?'']
              [''inconclusive'', ''inconclusive''] ''Patient has fever and cough.''
              ''telegram_42_20240309_140507'' :: string report) ''success''
            = Some (PyBool b) \<and> b)
   \<and> has_key (success_report
         [PStr ''Does fever cause cough?'', PStr ''Is cough a symptom?'']
         [''inconclusive'', ''inconclusive''] ''Patient has fever and cough.''
         ''telegram_42_20240309_140507'' :: string report) ''element_id''"
proof -
  have returned:
    "snd (process_telegram_image sample_world ''/tmp/scan.png'' ''42'') =
       Returned (success_report
         [PStr ''Does fever cause cough?'', PStr ''Is cough a symptom?'']
         [''inconclusive'', ''inconclusive''] ''Patient has fever and cough.''
         ''telegram_42_20240309_140507'')"
    by (simp add: sample_run success_report_def)
  show ?thesis
    using report_keys [OF returned] returned by (auto simp: success_report_def)
qed

text \<open>
  C7. The list handed to \<open>verify_questions_sync\<close> is the list of the \<open>question\<close> values
  of the discovered patterns, in the order of the patterns, with every absent
  (\<open>dict_get\<close> gives \<open>None\<close>), \<open>None\<close> or empty value left out.
\<close>

theorem questions_handed_to_verifier:
  assumes "VerifyQuestions qs \<in> set (fst (process_telegram_image w image_path user_id))"
  shows "\<exists>ps. discover_patterns w 3 5 = Inr ps \<and>
              qs = filter (\<lambda>v. v \<noteq> PNone \<and> v \<noteq> PStr [])
                     (map (\<lambda>p. dict_get p ''question'') ps)"
proof -
  have "\<exists>ps. discover_patterns w 3 5 = Inr ps \<and>
              qs = filter truthy (map (\<lambda>p. dict_get p ''question'') ps)"
    using assms
    by (auto simp: process_telegram_image_def try_block_def run_simps Let_def
        no_hypotheses_report_def split: sum.splits prod.splits if_splits)
  moreover have "truthy = (\<lambda>v. v \<noteq> PNone \<and> v \<noteq> PStr [])"
    by (rule ext) (simp add: truthy_iff)
  ultimately show ?thesis by simp
qed

theorem questions_handed_to_verifier_witness:
  "VerifyQuestions [PStr ''Does fever cause cough?'', PStr ''Is cough a symptom?'']
     \<in> set (fst (process_telegram_image sample_world ''/tmp/scan.png'' ''42''))
   \<and> (\<exists>ps. discover_patterns sample_world 3 5 = Inr ps \<and>
            length ps = 5 \<and>
            [PStr ''Does fever cause cough?'', PStr ''Is cough a symptom?''] =
              filter (\<lambda>v. v \<noteq> PNone \<and> v \<noteq> PStr [])
                (map (\<lambda>p. dict_get p ''question'') ps))"
proof -
  have handed:
    "VerifyQuestions [PStr ''Does fever cause cough?'', PStr ''Is cough a symptom?'']
       \<in> set (fst (process_telegram_image sample_world ''/tmp/scan.png'' ''42''))"
    by (simp add: sample_run)
  obtain ps where ps: "discover_patterns sample_world 3 5 = Inr ps"
    and qs: "[PStr ''Does fever cause cough?'', PStr ''Is cough a symptom?''] =
              filter (\<lambda>v. v \<noteq> PNone \<and> v \<noteq> PStr [])
                (map (\<lambda>p. dict_get p ''question'') ps)"
    using questions_handed_to_verifier [OF handed] by blast
  have "length ps = 5"
    using ps by (auto simp: sample_world_def)
  then show ?thesis
    using handed ps qs by blast
qed


text \<open>
  C3 fails on the code at this input. On a checkout without the directory
  \<open>chronos_output\<close>, the user identifier \<open>a/b\<close> makes line 40 create a directory below
  it; \<open>mkdir\<close> raises, and since line 40 stands before the \<open>try\<close>, the exception reaches
  the caller: no dict is returned and no collaborator is called.
\<close>

theorem mkdir_exception_reaches_caller:
  "process_telegram_image fresh_checkout_world ''/tmp/scan.png'' ''a/b'' =
     ([Mkdir ''/srv/chronos/chronos_output/telegram_a/b_20240309_140507_text.txt''],
      Raised (PyException ''[Errno 2] No such file or directory''))"
  by (simp add: fresh_checkout_run)

text \<open>
  C6 fails on the code at this input. When \<open>discover_patterns\<close> raises, control goes
  from line 104 to the handler: the session opened by the constructor of line 98 is not
  closed, \<open>pattern_discovery.close()\<close> of line 108 being reached on the success path only.
\<close>

theorem discovery_failure_leaves_session_open:
  "fst (process_telegram_image discovery_failure_world ''/tmp/scan.png'' ''42'') =
     [Mkdir ''/srv/chronos/chronos_output/telegram_42_20240309_140507_text.txt'',
      ImportPipeline,
      PipelineInit ''neo4j://db:7687'' ''neo4j'' ''0123456789'',
      ProcessDocument ''/tmp/scan.png''
        ''/srv/chronos/chronos_output/telegram_42_20240309_140507_text.txt''
        ''telegram_42_20240309_140507'',
      DiscoveryInit ''neo4j://db:7687'' ''neo4j'' ''0123456789'',
      DiscoverPatterns 3 5]
   \<and> DiscoveryClose \<notin>
       set (fst (process_telegram_image discovery_failure_world ''/tmp/scan.png'' ''42''))
   \<and> DiscoveryClose \<in>
       set (fst (process_telegram_image sample_world ''/tmp/scan.png'' ''42''))"
  by (simp add: discovery_failure_run sample_run)

section \<open>The verification stage returns one result per question, in order\<close>

lemma length_fold_record_completion:
  "length (fold (record_completion svc qs) completed slots) = length slots"
  by (induction completed arbitrary: slots) (auto simp: record_completion_def)

text \<open>A slot holds the result of its own question once that verification completed.\<close>

lemma nth_fold_record_completion:
  assumes "i < length slots" and "length slots = length qs"
  shows "fold (record_completion svc qs) completed slots ! i =
           (if i \<in> set completed then Some (verify_one svc (qs ! i)) else slots ! i)"
  using assms
proof (induction completed arbitrary: slots)
  case Nil
  then show ?case by simp
next
  case (Cons j js)
  then show ?case
    by (cases "i = j") (auto simp: record_completion_def nth_list_update)
qed

lemma vr_question_verify_one: "vr_question (verify_one svc q) = q"
  by (simp add: verify_one_def split: sum.splits prod.splits)

lemma verify_by_index:
  "verify svc completed qs =
     map (\<lambda>i. if i \<in> set completed then verify_one svc (qs ! i) else unfinished (qs ! i))
       [0..<length qs]"
  by (rule nth_equalityI)
     (auto simp: verify_def length_fold_record_completion nth_fold_record_completion)

text \<open>
  C5. For any list of questions, any verification service (which may fail on any
  question) and any order of completion (which may leave questions unfinished), the
  verification stage returns as many results as there are questions, the result at
  each position is the result of the question at that position, and it is the
  question's own outcome when its verification completed and the unfinished entry
  otherwise.
\<close>

theorem verify_preserves_order:
  "length (verify svc completed qs) = length qs
   \<and> map vr_question (verify svc completed qs) = qs
   \<and> verify svc completed qs =
       map (\<lambda>i. if i \<in> set completed then verify_one svc (qs ! i) else unfinished (qs ! i))
         [0..<length qs]"
proof -
  have "length (verify svc completed qs) = length qs"
    by (simp add: verify_by_index)
  moreover have "map vr_question (verify svc completed qs) = qs"
    by (rule nth_equalityI)
       (auto simp: verify_by_index vr_question_verify_one unfinished_def)
  ultimately show ?thesis
    using verify_by_index [of svc completed qs] by simp
qed

text \<open>
  Three questions whose verifications complete in the order 2, 0, 1, the second one
  failing: the results come back in the order of the questions.
\<close>

lemma verify_out_of_order:
  "verify (\<lambda>q. if q = ''b'' then Inl (PyException ''timeout'') else Inr (Supported, [q]))
     [2, 0, 1] [''a'', ''b'', ''c''] =
     [\<lparr>vr_question = ''a'', vr_verdict = Some Supported, vr_evidence = [''a''],
       vr_error = None\<rparr>,
      \<lparr>vr_question = ''b'', vr_verdict = None, vr_evidence = [],
       vr_error = Some ''timeout''\<rparr>,
      \<lparr>vr_question = ''c'', vr_verdict = Some Supported, vr_evidence = [''c''],
       vr_error = None\<rparr>]"
  by (simp add: verify_def record_completion_def verify_one_def)

section \<open>Committing a GraphElement set twice\<close>

lemma keys_merge_by: "key ` set (merge_by key x xs) = insert (key x) (key ` set xs)"
  by (induction xs) auto

lemma keys_fold_merge_by:
  "key ` set (fold (merge_by key) xs s) = key ` set xs \<union> key ` set s"
  by (induction xs arbitrary: s) (auto simp: keys_merge_by)

text \<open>A second element of the same identity replaces the first.\<close>

lemma merge_by_absorb:
  "key x = key y \<Longrightarrow> merge_by key x (merge_by key y xs) = merge_by key x xs"
  by (induction xs) auto

text \<open>Elements of different identities merge in either order once one of them is stored.\<close>

lemma merge_by_commute:
  "key x \<noteq> key y \<Longrightarrow> key x \<in> key ` set xs \<Longrightarrow>
   merge_by key x (merge_by key y xs) = merge_by key y (merge_by key x xs)"
  by (induction xs) auto

lemma fold_merge_by_past:
  assumes "key x \<in> key ` set s"
  shows "fold (merge_by key) xs (merge_by key x s) =
           (if key x \<in> key ` set xs then fold (merge_by key) xs s
            else merge_by key x (fold (merge_by key) xs s))"
  using assms
proof (induction xs arbitrary: s)
  case Nil
  then show ?case by simp
next
  case (Cons y ys)
  show ?case
  proof (cases "key y = key x")
    case True
    then show ?thesis by (simp add: merge_by_absorb)
  next
    case False
    have "merge_by key y (merge_by key x s) = merge_by key x (merge_by key y s)"
      using False Cons.prems merge_by_commute [of key x y s] by simp
    moreover have "key x \<in> key ` set (merge_by key y s)"
      using Cons.prems by (simp add: keys_merge_by)
    ultimately show ?thesis
      using False Cons.IH [of "merge_by key y s"] by auto
  qed
qed

lemma fold_merge_by_idem:
  "fold (merge_by key) xs (fold (merge_by key) xs s) = fold (merge_by key) xs s"
proof (induction xs arbitrary: s)
  case Nil
  then show ?case by simp
next
  case (Cons x xs)
  let ?u = "merge_by key x s"
  have in_u: "key x \<in> key ` set ?u"
    by (simp add: keys_merge_by)
  have in_fu: "key x \<in> key ` set (fold (merge_by key) xs ?u)"
    using in_u by (simp add: keys_fold_merge_by)
  have u_idem: "merge_by key x ?u = ?u"
    by (simp add: merge_by_absorb)
  show ?case
  proof (cases "key x \<in> key ` set xs")
    case True
    then show ?thesis
      using fold_merge_by_past [OF in_fu, of xs] Cons.IH [of ?u] by simp
  next
    case False
    have "fold (merge_by key) xs (merge_by key x (fold (merge_by key) xs ?u))
            = merge_by key x (fold (merge_by key) xs (fold (merge_by key) xs ?u))"
      using False fold_merge_by_past [OF in_fu, of xs] by simp
    also have "\<dots> = merge_by key x (fold (merge_by key) xs ?u)"
      by (simp add: Cons.IH)
    also have "\<dots> = fold (merge_by key) xs (merge_by key x ?u)"
      using False fold_merge_by_past [OF in_u, of xs] by simp
    also have "\<dots> = fold (merge_by key) xs ?u"
      by (simp add: u_idem)
    finally show ?thesis by simp
  qed
qed

lemma distinct_merge_by:
  "distinct (map key xs) \<Longrightarrow> distinct (map key (merge_by key x xs))"
  by (induction xs) (auto simp: keys_merge_by)

lemma distinct_fold_merge_by:
  "distinct (map key s) \<Longrightarrow> distinct (map key (fold (merge_by key) xs s))"
  by (induction xs arbitrary: s) (auto simp: distinct_merge_by)

text \<open>
  C8. For any identity of nodes that is a function of the node, committing a
  GraphElement set to a store that already holds it changes nothing: the store after
  two commits is the store after one. Starting from the empty store, no two stored
  entities and no two stored relationships have the same identity.
\<close>

theorem commit_idempotent:
  "commit ident g (commit ident g s) = commit ident g s
   \<and> distinct (map ident (stored_nodes (commit ident g (commit ident g empty_store))))
   \<and> distinct (map (rel_identity ident)
        (stored_relationships (commit ident g (commit ident g empty_store))))"
proof -
  have twice: "commit ident g (commit ident g t) = commit ident g t" for t
    by (simp add: commit_def fold_merge_by_idem)
  have "distinct (map ident (stored_nodes (commit ident g empty_store)))"
    by (simp add: commit_def empty_store_def distinct_fold_merge_by)
  moreover have "distinct (map (rel_identity ident)
        (stored_relationships (commit ident g empty_store)))"
    by (simp add: commit_def empty_store_def distinct_fold_merge_by)
  ultimately show ?thesis
    by (simp add: twice)
qed

end
